theory Spec2Isabelle
  imports Main "HOL-Library.Multiset" "HOL-Library.List_Lexorder" "HOL-Library.Char_ord"
begin

section \<open>The print-and-play LaTeX generator (scripts/generate\_latex\_script.py)\<close>

text \<open>
  The script builds one LaTeX document by appending string fragments to an accumulator
  and writes it to the output path. The model keeps the accumulator as a list of
  pieces: literal text, and the image inclusions whose path argument comes from the
  input directory. \<open>render\<close> gives back the exact characters the script
  appends, so the written file is \<open>render\<close> of the piece list, and counting
  images is counting pieces.

  A backslash cannot be written inside an Isabelle string literal, so \<open>bs # ''begin''\<close>
  stands for the LaTeX command \<^verbatim>\<open>\begin\<close>, backslash included; \<open>\<newline>\<close> is the
  line feed of the Python literal.
\<close>

subsection \<open>Markup pieces\<close>

definition bs :: char where
  "bs = CHR 0x5C"

definition tab :: char where
  "tab = CHR 0x09"

text \<open>
  \<open>IncludeGraphics opts p\<close> is the text \<^verbatim>\<open>\includegraphics\<close>, then \<open>opts\<close> (the bracketed
  option list, or nothing), then \<open>p\<close> in braces. \<open>Mirrored opts p\<close> is the same
  inclusion inside \<^verbatim>\<open>\scalebox{-1}[1]{...}\<close>, the horizontally mirrored copy.
\<close>

datatype latex = Text string | IncludeGraphics string string | Mirrored string string

fun render_piece :: "latex \<Rightarrow> string" where
  "render_piece (Text s) = s"
| "render_piece (IncludeGraphics opts p) = bs # ''includegraphics'' @ opts @ ''{'' @ p @ ''}''"
| "render_piece (Mirrored opts p) =
     bs # ''scalebox{-1}[1]{'' @ bs # ''includegraphics'' @ opts @ ''{'' @ p @ ''}}''"

definition render :: "latex list \<Rightarrow> string" where
  "render ps = concat (map render_piece ps)"

subsection \<open>The generator object and the file system it reads\<close>

record LatexFileGenerator =
  path_to_root_dir :: string
  output_path :: string
  is_a4 :: bool
  has_bleed :: bool
  rotate_amd_cards :: bool

text \<open>
  The script raises \<^verbatim>\<open>ValueError\<close> itself. \<^verbatim>\<open>open\<close> and \<^verbatim>\<open>write\<close> raise what the
  system decides: \<open>Raised cls msg\<close> is such an exception, of the class named \<open>cls\<close>.
\<close>

datatype exception = ValueError string | Raised string string



text \<open>
  The file system as the script meets it: \<open>path_exists\<close> is \<^verbatim>\<open>Path.exists\<close>,
  \<open>is_dir\<close> is \<^verbatim>\<open>Path.is_dir\<close>, \<open>iterdir d\<close> the entry names of directory \<open>d\<close>
  in the order the operating system yields them. \<open>open_error p\<close> is the exception
  \<^verbatim>\<open>open(p, "w")\<close> raises, if any (a missing parent directory, a path that is a
  directory, no permission). \<open>write_error p text\<close> is the exception that writing
  \<open>text\<close> to the opened file raises, if any, with the number of characters that
  reached the file before it.
\<close>

record filesystem =
  path_exists :: "string \<Rightarrow> bool"
  is_dir :: "string \<Rightarrow> bool"
  iterdir :: "string \<Rightarrow> string list"
  open_error :: "string \<Rightarrow> exception option"
  write_error :: "string \<Rightarrow> string \<Rightarrow> (exception \<times> nat) option"

text \<open>
  A path is the string \<^verbatim>\<open>str\<close> gives for it on a POSIX system. \<open>Path s\<close> is
  \<^verbatim>\<open>str(Path(s))\<close>: the components of \<open>s\<close> between slashes, without the empty ones
  and the single dots, joined by one slash each, after the root (one slash, or two when
  \<open>s\<close> starts with exactly two); the path without root and components is the dot.
\<close>

fun split_sep :: "string \<Rightarrow> string list" where
  "split_sep [] = [[]]"
| "split_sep (c # cs) =
     (if c = CHR ''/'' then [] # split_sep cs
      else (case split_sep cs of [] \<Rightarrow> [[c]] | part # parts \<Rightarrow> (c # part) # parts))"

fun join_sep :: "string list \<Rightarrow> string" where
  "join_sep [] = []"
| "join_sep [part] = part"
| "join_sep (part # next_part # parts) = part @ ''/'' @ join_sep (next_part # parts)"

definition path_root :: "string \<Rightarrow> string" where
  "path_root s =
     (let n = length (takeWhile (\<lambda>c. c = CHR ''/'') s)
      in if n = 0 then [] else if n = 2 then ''//'' else ''/'')"

definition path_parts :: "string \<Rightarrow> string list" where
  "path_parts s = filter (\<lambda>part. part \<noteq> [] \<and> part \<noteq> ''.'') (split_sep s)"

definition Path :: "string \<Rightarrow> string" where
  "Path s =
     (let str = path_root s @ join_sep (path_parts s)
      in if str = [] then ''.'' else str)"

text \<open>
  \<^verbatim>\<open>p / name\<close> for a path \<open>p\<close> in the form above and a name of one component: the
  name takes the place of the dot and follows a bare root directly. The file names the
  script gives to \<^verbatim>\<open>with_suffix\<close> carry no suffix, so the suffix is appended.
\<close>

definition joinpath :: "string \<Rightarrow> string \<Rightarrow> string" where
  "joinpath p name =
     (if p = ''.'' then name
      else if p = ''/'' \<or> p = ''//'' then p @ name
      else p @ ''/'' @ name)"

definition with_suffix :: "string \<Rightarrow> string \<Rightarrow> string" where
  "with_suffix p suffix = p @ suffix"

definition endswith :: "string \<Rightarrow> string \<Rightarrow> bool" where
  "endswith s suffix =
     (length suffix \<le> length s \<and> drop (length s - length suffix) s = suffix)"

text \<open>
  \<^verbatim>\<open>Path(d).glob("*" + suffix)\<close>: nothing when \<open>d\<close> is not a directory, else the
  entries of \<open>d\<close> whose name ends with the suffix.
\<close>

definition glob :: "filesystem \<Rightarrow> string \<Rightarrow> string \<Rightarrow> string list" where
  "glob fs d suffix =
     (if \<not> is_dir fs d then []
      else map (joinpath d) (filter (\<lambda>name. endswith name suffix) (iterdir fs d)))"

text \<open>\<^verbatim>\<open>p.replace("\\", "/").replace(" ", "\\ ")\<close>, both replacements character by character.\<close>

definition sanitize_path :: "string \<Rightarrow> string" where
  "sanitize_path p =
     concat (map (\<lambda>c. if c = CHR '' '' then [bs, CHR '' ''] else [c])
                 (map (\<lambda>c. if c = bs then CHR ''/'' else c) p))"

text \<open>The Python slice \<^verbatim>\<open>xs[a:b]\<close> for \<open>0 \<le> a \<le> b\<close>; it stops at the end of the list.\<close>

definition slice :: "'a list \<Rightarrow> nat \<Rightarrow> nat \<Rightarrow> 'a list" where
  "slice xs a b = take (b - a) (drop a xs)"

subsection \<open>Validation of the root directory\<close>

fun check_files :: "filesystem \<Rightarrow> string \<Rightarrow> string list \<Rightarrow> exception + unit" where
  "check_files fs root [] = Inr ()"
| "check_files fs root (filename # rest) =
     (if \<not> path_exists fs (with_suffix (joinpath root filename) ''.jpg'') \<and>
         \<not> path_exists fs (with_suffix (joinpath root filename) ''.png'')
      then Inl (ValueError (''Missing file '' @ filename @ '' (JPG or PNG format) in '' @ root))
      else check_files fs root rest)"

definition check_root_dir_consistency ::
  "filesystem \<Rightarrow> LatexFileGenerator \<Rightarrow> exception + unit" where
  "check_root_dir_consistency fs self =
     (if \<not> path_exists fs (joinpath (path_to_root_dir self) ''AbilityCards'')
      then Inl (ValueError (''Missing folder with the name AbilityCards in '' @ path_to_root_dir self))
      else if \<not> path_exists fs (joinpath (path_to_root_dir self) ''AMD'')
      then Inl (ValueError (''Missing folder with the name AMD in '' @ path_to_root_dir self))
      else check_files fs (path_to_root_dir self)
             [''ability_card_back'', ''amd_back'', ''non_amd_back'', ''character_token'',
              ''character_mat'', ''character_mat_back'', ''character_mini'', ''character_sheet''])"

text \<open>
  The constructor: it stores the two paths as \<^verbatim>\<open>Path\<close> objects and the two flags, fixes
  the rotation flag and validates.
\<close>

definition init ::
  "filesystem \<Rightarrow> string \<Rightarrow> string \<Rightarrow> bool \<Rightarrow> bool \<Rightarrow> exception + LatexFileGenerator" where
  "init fs root out a4 bleed =
     (let self = \<lparr>path_to_root_dir = Path root, output_path = Path out, is_a4 = a4,
                   has_bleed = bleed, rotate_amd_cards = True\<rparr>
      in case check_root_dir_consistency fs self of
           Inl e \<Rightarrow> Inl e
         | Inr u \<Rightarrow> Inr self)"

subsection \<open>Fixed fragments\<close>

definition header :: "LatexFileGenerator \<Rightarrow> latex list" where
  "header self =
     (let header_string = bs # ''documentclass[12pt,'';
          header_string = header_string @ (if is_a4 self then ''a4paper'' else ''letterpaper'')
      in [Text (header_string @ '',notitlepage,landscape]{article}\<newline>'' @
            bs # ''usepackage{graphicx}\<newline>'' @
            bs # ''usepackage{subcaption}\<newline>'' @
            bs # ''usepackage{pdflscape}\<newline>'' @
            bs # ''usepackage[space]{grffile}\<newline>\<newline>'' @
            bs # ''pagenumbering{gobble}\<newline>\<newline>'' @
            bs # ''addtolength{'' @ bs # ''topmargin}{-3.4cm}\<newline>'' @
            bs # ''begin{document}\<newline>\<newline>'')])"

definition end_document :: "latex list" where
  "end_document = [Text (bs # ''end{document}'')]"

definition character_sheet :: "string \<Rightarrow> latex list" where
  "character_sheet path_to_sheet =
     (let res =
        [Text (bs # ''clearpage\<newline>\<newline>'' @ bs # ''begin{figure}[ht]\<newline>'' @
               bs # ''centering\<newline>'' @ bs # ''makebox[1'' @ bs # ''textwidth]{\<newline>''),
         IncludeGraphics ''[height=14cm]'' path_to_sheet,
         Text (bs # ''hspace{0cm}%\<newline>''),
         IncludeGraphics ''[height=14cm]'' path_to_sheet,
         Text (''\<newline>}\<newline>'' @ bs # ''end{figure}\<newline>\<newline>'')]
      in res @ res)"

definition character_mat :: "string \<Rightarrow> string \<Rightarrow> string \<Rightarrow> latex list" where
  "character_mat mat_front_path mat_back_path characer_mini_path =
     [Text (bs # ''begin{figure}[ht]\<newline>'' @ bs # ''centering\<newline>'' @
            bs # ''makebox[1'' @ bs # ''textwidth]{\<newline>''),
      IncludeGraphics ''[width=14.5cm,height=9.5cm]'' mat_front_path,
      Text (bs # ''hspace{0cm}%\<newline>}\<newline>'' @
            bs # ''makebox[1'' @ bs # ''textwidth]{\<newline>'' @ [tab]),
      IncludeGraphics ''[width=4cm]'' characer_mini_path,
      Text (''\<newline>}\<newline>'' @ bs # ''end{figure}\<newline>\<newline>'' @
            bs # ''clearpage\<newline>\<newline>'' @
            bs # ''begin{figure}[ht]\<newline>'' @ bs # ''centering\<newline>'' @
            bs # ''makebox[1'' @ bs # ''textwidth]{\<newline>''),
      IncludeGraphics ''[width=14.5cm,height=9.5cm]'' mat_back_path,
      Text (''%\<newline>}\<newline>'' @ bs # ''makebox[1'' @ bs # ''textwidth]{\<newline>''),
      Mirrored ''[width=4cm]'' characer_mini_path,
      Text (bs # ''hspace{0cm}%\<newline>}\<newline>'' @ bs # ''end{figure}\<newline>\<newline>'' @
            bs # ''clearpage'')]"

subsection \<open>Paginated fragments\<close>

text \<open>
  A loop \<^verbatim>\<open>for i in range(n): res += f(i)\<close> is the concatenation of the pieces of
  \<open>f i\<close> for \<open>i\<close> in \<open>[0..<n]\<close>. Indices and lengths are natural numbers; the only
  subtractions of the source, \<^verbatim>\<open>len(...) - 1\<close>, \<^verbatim>\<open>num_pages - 1\<close> and
  \<^verbatim>\<open>cards_per_line - 1\<close>, are evaluated inside loops that run only when the left
  operand is positive.
\<close>

definition amd_cards_one_page ::
  "LatexFileGenerator \<Rightarrow> string list \<Rightarrow> string option \<Rightarrow> latex list" where
  "amd_cards_one_page self amd_paths token_path =
     (let res = [Text (bs # ''begin{figure}[ht]\<newline>  '' @ bs # ''centering\<newline>'' @
                       bs # ''setkeys{Gin}{width=6.9cm}\<newline>'' @
                       bs # ''makebox[1'' @ bs # ''textwidth]{\<newline>'')];
          add_rotation = (if rotate_amd_cards self then ''angle=90, '' else '''');
          res = res @ concat (map (\<lambda>i.
                  [Text ''  '', IncludeGraphics (''['' @ add_rotation @ ''width=4.4cm]'') (amd_paths ! i)] @
                  (if i \<noteq> length amd_paths - 1 \<and> i \<noteq> 4
                   then [Text (bs # ''hspace{0cm}%'' @ ''\<newline>'')] else []) @
                  (if i = 4
                   then [Text (''\<newline>}\<newline>'' @ bs # ''makebox['' @ bs # ''textwidth]{\<newline>'')]
                   else []))
                [0..<length amd_paths]);
          res = res @
            (case token_path of
               None \<Rightarrow> []
             | Some token \<Rightarrow>
                 [Text (''\<newline>}\<newline>'' @ bs # ''makebox[1'' @ bs # ''textwidth]{'' @ ''\<newline>'')] @
                 concat (map (\<lambda>i.
                   [Text ''  '', IncludeGraphics ''[width=1.45cm]'' token,
                    Text (bs # ''hspace{0cm}%'' @ ''\<newline>''),
                    Text ''  '', Mirrored ''[width=1.45cm]'' token] @
                   (if i \<noteq> 9 then [Text (bs # ''hspace{0cm}%'' @ ''\<newline>'')] else []))
                 [0..<5]))
      in res @ [Text (''\<newline>}\<newline>'' @ bs # ''end{figure}\<newline>\<newline>'' @
                      bs # ''clearpage\<newline>\<newline>'')])"

definition amd_cards :: "LatexFileGenerator \<Rightarrow> string list \<Rightarrow> string \<Rightarrow> latex list" where
  "amd_cards self amd_paths character_token_path =
     (let n = length amd_paths;
          cards_per_page = 10;
          num_pages = (n + cards_per_page - 1) div cards_per_page
      in concat (map (\<lambda>i.
           let amds_in_page = slice amd_paths (cards_per_page * i) (cards_per_page * (i + 1))
           in if i \<noteq> num_pages - 1
              then amd_cards_one_page self amds_in_page None
              else amd_cards_one_page self amds_in_page (Some character_token_path))
         [0..<num_pages]))"

definition ability_cards_one_page :: "LatexFileGenerator \<Rightarrow> string list \<Rightarrow> latex list" where
  "ability_cards_one_page self card_paths =
     (let res = [Text (bs # ''begin{figure}[ht]\<newline>  '' @ bs # ''centering\<newline>'' @
                       bs # ''setkeys{Gin}{width='')];
          res = res @ (if has_bleed self then [Text ''6.99cm''] else [Text ''6.35cm'']);
          res = res @ [Text (''}\<newline>'' @ bs # ''makebox[1'' @ bs # ''textwidth]{\<newline>'')];
          cards_per_line = (if \<not> is_a4 self \<and> has_bleed self then 3 else 4);
          res = res @ concat (map (\<lambda>i.
                  [Text ''   '', IncludeGraphics '''' (card_paths ! i)] @
                  (if i \<noteq> length card_paths - 1 \<and> i \<noteq> cards_per_line - 1
                   then [Text (bs # ''hspace{0cm}%'' @ ''\<newline>'')] else []) @
                  (if i = cards_per_line - 1
                   then [Text (''\<newline>}\<newline>'' @ bs # ''makebox['' @ bs # ''textwidth]{\<newline>'')]
                   else []))
                [0..<length card_paths])
      in res @ [Text (''\<newline>}\<newline>'' @ bs # ''end{figure}\<newline>\<newline>'' @
                      bs # ''clearpage\<newline>\<newline>'')])"

definition ability_cards :: "LatexFileGenerator \<Rightarrow> string list \<Rightarrow> string \<Rightarrow> latex list" where
  "ability_cards self card_paths ability_card_back =
     (let cards_per_line = (if \<not> is_a4 self \<and> has_bleed self then 3 else 4)
      in concat (map (\<lambda>i.
           let cards_in_page =
                 slice card_paths (2 * cards_per_line * i) (2 * cards_per_line * (i + 1))
           in ability_cards_one_page self cards_in_page @
              ability_cards_one_page self (replicate (length cards_in_page) ability_card_back))
         [0..<length card_paths div (2 * cards_per_line) + 1]))"

subsection \<open>The document\<close>

text \<open>
  The script resolves each single asset four lines at a time: the \<^verbatim>\<open>.jpg\<close> path, and
  the \<^verbatim>\<open>.png\<close> path when the first does not exist.
\<close>

definition asset_path :: "filesystem \<Rightarrow> LatexFileGenerator \<Rightarrow> string \<Rightarrow> string" where
  "asset_path fs self filename =
     (let jpg_file = with_suffix (joinpath (path_to_root_dir self) filename) ''.jpg''
      in if \<not> path_exists fs jpg_file
         then with_suffix (joinpath (path_to_root_dir self) filename) ''.png''
         else jpg_file)"

text \<open>
  The images of one sub-folder: the \<^verbatim>\<open>*.jpg\<close> entries, then the \<^verbatim>\<open>*.png\<close> entries,
  sorted. The paths of one folder differ in their last component only, so the order of
  \<^verbatim>\<open>Path\<close> objects is the order of their strings, character by character.
\<close>

definition folder_images :: "filesystem \<Rightarrow> LatexFileGenerator \<Rightarrow> string \<Rightarrow> string list" where
  "folder_images fs self folder =
     sort (glob fs (joinpath (path_to_root_dir self) folder) ''.jpg'' @
           glob fs (joinpath (path_to_root_dir self) folder) ''.png'')"

definition card_paths :: "filesystem \<Rightarrow> LatexFileGenerator \<Rightarrow> string list" where
  "card_paths fs self = folder_images fs self ''AbilityCards''"

definition amd_paths :: "filesystem \<Rightarrow> LatexFileGenerator \<Rightarrow> string list" where
  "amd_paths fs self = folder_images fs self ''AMD''"

definition amd_backs :: "filesystem \<Rightarrow> LatexFileGenerator \<Rightarrow> string list" where
  "amd_backs fs self = map (\<lambda>_. asset_path fs self ''amd_back'') (amd_paths fs self)"

definition non_amd_paths :: "filesystem \<Rightarrow> LatexFileGenerator \<Rightarrow> string list" where
  "non_amd_paths fs self = folder_images fs self ''NON_AMD''"

definition non_amd_backs :: "filesystem \<Rightarrow> LatexFileGenerator \<Rightarrow> string list" where
  "non_amd_backs fs self =
     map (\<lambda>_. asset_path fs self ''non_amd_back'') (non_amd_paths fs self)"

definition all_amd_cards :: "filesystem \<Rightarrow> LatexFileGenerator \<Rightarrow> string list" where
  "all_amd_cards fs self =
     (let all_amd = amd_paths fs self @ non_amd_paths fs self;
          all_backs = amd_backs fs self @ non_amd_backs fs self
      in map sanitize_path (all_amd @ all_backs))"

text \<open>The four sections, each one \<^verbatim>\<open>latex_code += ...\<close> of \<^verbatim>\<open>generate_latex_file\<close>.\<close>

definition ability_section :: "filesystem \<Rightarrow> LatexFileGenerator \<Rightarrow> latex list" where
  "ability_section fs self =
     ability_cards self (map sanitize_path (card_paths fs self))
       (sanitize_path (asset_path fs self ''ability_card_back''))"

definition amd_section :: "filesystem \<Rightarrow> LatexFileGenerator \<Rightarrow> latex list" where
  "amd_section fs self =
     amd_cards self (all_amd_cards fs self) (sanitize_path (asset_path fs self ''character_token''))"

definition mat_section :: "filesystem \<Rightarrow> LatexFileGenerator \<Rightarrow> latex list" where
  "mat_section fs self =
     (let mat_mini_paths =
            map (\<lambda>filename. sanitize_path (asset_path fs self filename))
              [''character_mat'', ''character_mat_back'', ''character_mini'']
      in character_mat (mat_mini_paths ! 0) (mat_mini_paths ! 1) (mat_mini_paths ! 2))"

definition sheet_section :: "filesystem \<Rightarrow> LatexFileGenerator \<Rightarrow> latex list" where
  "sheet_section fs self = character_sheet (sanitize_path (asset_path fs self ''character_sheet''))"

definition latex_code :: "filesystem \<Rightarrow> LatexFileGenerator \<Rightarrow> latex list" where
  "latex_code fs self =
     header self @ ability_section fs self @ amd_section fs self @ mat_section fs self @
     sheet_section fs self @ end_document"

text \<open>
  The effect of a run is the list of the files it wrote, each with the text it holds
  afterwards. \<^verbatim>\<open>generate_latex_file\<close> builds the whole document first and then opens
  the output path: when \<^verbatim>\<open>open\<close> raises, nothing is written; when the write raises,
  the file holds the characters that reached it; otherwise it holds the document.
\<close>

definition generate_latex_file ::
  "filesystem \<Rightarrow> LatexFileGenerator \<Rightarrow> (exception + unit) \<times> (string \<times> string) list" where
  "generate_latex_file fs self =
     (let text = render (latex_code fs self)
      in case open_error fs (output_path self) of
           Some e \<Rightarrow> (Inl e, [])
         | None \<Rightarrow>
             (case write_error fs (output_path self) text of
                Some (e, n) \<Rightarrow> (Inl e, [(output_path self, take n text)])
              | None \<Rightarrow> (Inr (), [(output_path self, text)])))"

text \<open>
  The module body: build the generator from the four command-line values, then
  generate. An exception of the constructor ends the run before anything is written.
\<close>

definition main ::
  "filesystem \<Rightarrow> string \<Rightarrow> string \<Rightarrow> bool \<Rightarrow> bool \<Rightarrow>
   (exception + unit) \<times> (string \<times> string) list" where
  "main fs root out a4 bleed =
     (case init fs root out a4 bleed of
        Inl e \<Rightarrow> (Inl e, [])
      | Inr filegen \<Rightarrow> generate_latex_file fs filegen)"

subsection \<open>Reading a document: images and pages\<close>

text \<open>
  The options of an image piece tell the kinds of image apart: the script uses one
  option list per kind (none for ability cards and their back).
\<close>

fun image_opts :: "latex \<Rightarrow> string option" where
  "image_opts (Text s) = None"
| "image_opts (IncludeGraphics opts p) = Some opts"
| "image_opts (Mirrored opts p) = Some opts"

definition images :: "latex list \<Rightarrow> latex list" where
  "images ps = filter (\<lambda>x. image_opts x \<noteq> None) ps"

definition images_with :: "string \<Rightarrow> latex list \<Rightarrow> latex list" where
  "images_with opts ps = filter (\<lambda>x. image_opts x = Some opts) ps"

definition amd_opts :: "LatexFileGenerator \<Rightarrow> string" where
  "amd_opts self = ''['' @ (if rotate_amd_cards self then ''angle=90, '' else '''') @ ''width=4.4cm]''"

text \<open>
  Every page of cards ends with the same piece, which closes the figure and clears the
  page. \<open>pages_of\<close> cuts a piece list after each such piece (and drops it).
\<close>

definition page_end :: latex where
  "page_end = Text (''\<newline>}\<newline>'' @ bs # ''end{figure}\<newline>\<newline>'' @
                    bs # ''clearpage\<newline>\<newline>'')"

fun pages_of :: "latex list \<Rightarrow> latex list list" where
  "pages_of [] = []"
| "pages_of (x # xs) =
     (if x = page_end then [] # pages_of xs
      else (case pages_of xs of [] \<Rightarrow> [[x]] | p # ps \<Rightarrow> (x # p) # ps))"

text \<open>The elements at positions 0, 2, 4, ...: of the ability-card pages, the fronts.\<close>

fun evens :: "'a list \<Rightarrow> 'a list" where
  "evens [] = []"
| "evens [x] = [x]"
| "evens (x # y # zs) = x # evens zs"

text \<open>
  A file system given by the paths that exist and the listing of each directory (the
  paths with a listing are the directories), on which every file can be written.
\<close>

definition mk_fs :: "string list \<Rightarrow> (string \<times> string list) list \<Rightarrow> filesystem" where
  "mk_fs present listing =
     \<lparr>path_exists = (\<lambda>p. p \<in> set present),
      is_dir = (\<lambda>d. map_of listing d \<noteq> None),
      iterdir = (\<lambda>d. case map_of listing d of None \<Rightarrow> [] | Some names \<Rightarrow> names),
      open_error = (\<lambda>p. None),
      write_error = (\<lambda>p text. None)\<rparr>"

text \<open>
  Names for what the claims speak of: the row width both ability-card functions
  compute, and the ten token images of the last AMD page.
\<close>

definition cards_per_line :: "LatexFileGenerator \<Rightarrow> nat" where
  "cards_per_line self = (if \<not> is_a4 self \<and> has_bleed self then 3 else 4)"

text \<open>
  A complete class directory \<^verbatim>\<open>cls\<close> with the given listings of its three folders, and
  the generator the command line builds for it by default (A4, with bleed).
\<close>

definition class_dir :: "string list \<Rightarrow> string list \<Rightarrow> string list \<Rightarrow> filesystem" where
  "class_dir cards amds non_amds =
     mk_fs [''cls/AbilityCards'', ''cls/AMD'', ''cls/NON_AMD'', ''cls/ability_card_back.png'',
            ''cls/amd_back.jpg'', ''cls/non_amd_back.png'', ''cls/character_token.png'',
            ''cls/character_mat.jpg'', ''cls/character_mat_back.jpg'',
            ''cls/character_mini.png'', ''cls/character_sheet.png'']
           [(''cls/AbilityCards'', cards), (''cls/AMD'', amds), (''cls/NON_AMD'', non_amds)]"

definition cls_generator :: LatexFileGenerator where
  "cls_generator = \<lparr>path_to_root_dir = ''cls'', output_path = ''out.tex'', is_a4 = True,
                     has_bleed = True, rotate_amd_cards = True\<rparr>"

definition token_opts :: string where
  "token_opts = ''[width=1.45cm]''"

definition token_images :: "string \<Rightarrow> latex list" where
  "token_images token =
     concat (replicate 5 [IncludeGraphics token_opts token, Mirrored token_opts token])"

section \<open>Reading pages and images off the fragments\<close>

lemma images_append: "images (a @ b) = images a @ images b"
  by (simp add: images_def)

lemma images_with_append: "images_with opts (a @ b) = images_with opts a @ images_with opts b"
  by (simp add: images_with_def)

lemma images_concat: "images (concat xss) = concat (map images xss)"
  by (induction xss) (simp_all add: images_def)

lemma images_with_concat: "images_with opts (concat xss) = concat (map (images_with opts) xss)"
  by (induction xss) (simp_all add: images_with_def)

lemma pages_of_cut: "page_end \<notin> set a \<Longrightarrow> pages_of (a @ page_end # rest) = a # pages_of rest"
  by (induction a) auto

lemma pages_of_concat:
  "(\<And>p. p \<in> set ps \<Longrightarrow> p \<noteq> [] \<and> last p = page_end \<and> page_end \<notin> set (butlast p)) \<Longrightarrow>
   pages_of (concat ps) = map butlast ps"
proof (induction ps)
  case Nil
  show ?case by simp
next
  case (Cons p ps)
  have p: "p \<noteq> []" "last p = page_end" "page_end \<notin> set (butlast p)"
    using Cons.prems [of p] by simp_all
  then have "p = butlast p @ [page_end]"
    by (metis append_butlast_last_id)
  then have eq: "concat (p # ps) = butlast p @ page_end # concat ps"
    by (metis append_Cons append_Nil append_assoc concat.simps(2))
  have "pages_of (butlast p @ page_end # concat ps) = butlast p # pages_of (concat ps)"
    using p(3) by (rule pages_of_cut)
  moreover have "pages_of (concat ps) = map butlast ps"
    using Cons.IH Cons.prems by simp
  ultimately show ?case
    unfolding eq by simp
qed

lemma concat_pairs: "concat (map (\<lambda>i. A i @ B i) js) = concat (concat (map (\<lambda>i. [A i, B i]) js))"
  by (induction js) simp_all

lemma map_nth_upt: "map (\<lambda>i. f (xs ! i)) [0..<length xs] = map f xs"
proof -
  have "map (\<lambda>i. f (xs ! i)) [0..<length xs] = map f (map (\<lambda>i. xs ! i) [0..<length xs])"
    by simp
  then show ?thesis
    by (simp only: map_nth)
qed

lemma ability_page_shape:
  "\<exists>body. ability_cards_one_page self cps = body @ [page_end] \<and> page_end \<notin> set body \<and>
          images body = map (IncludeGraphics '''') cps"
proof -
  define c :: nat where "c = (if \<not> is_a4 self \<and> has_bleed self then 3 else 4)"
  define step where "step = (\<lambda>i.
                  [Text ''   '', IncludeGraphics '''' (cps ! i)] @
                  (if i \<noteq> length cps - 1 \<and> i \<noteq> c - 1
                   then [Text (bs # ''hspace{0cm}%'' @ ''\<newline>'')] else []) @
                  (if i = c - 1
                   then [Text (''\<newline>}\<newline>'' @ bs # ''makebox['' @ bs # ''textwidth]{\<newline>'')]
                   else []))"
  define body where "body = [Text (bs # ''begin{figure}[ht]\<newline>  '' @ bs # ''centering\<newline>'' @
                       bs # ''setkeys{Gin}{width='')] @ (if has_bleed self then [Text ''6.99cm''] else [Text ''6.35cm''])
       @ [Text (''}\<newline>'' @ bs # ''makebox[1'' @ bs # ''textwidth]{\<newline>'')] @ concat (map step [0..<length cps])"
  have 1: "ability_cards_one_page self cps = body @ [page_end]"
    by (simp add: ability_cards_one_page_def body_def step_def c_def page_end_def Let_def)
  have st: "\<And>i. page_end \<notin> set (step i)"
    by (simp add: step_def page_end_def bs_def)
  have 2: "page_end \<notin> set body"
    using st by (auto simp: body_def page_end_def bs_def)
  have im: "\<And>i. images (step i) = [IncludeGraphics '''' (cps ! i)]"
    by (simp add: step_def images_def)
  have "images (concat (map step [0..<length cps])) = map (IncludeGraphics '''') cps"
    by (simp add: images_concat comp_def im map_nth_upt)
  then have 3: "images body = map (IncludeGraphics '''') cps"
    by (simp add: body_def images_append) (simp add: images_def)
  from 1 2 3 show ?thesis by blast
qed

lemma ability_page:
  "ability_cards_one_page self cps \<noteq> [] \<and> last (ability_cards_one_page self cps) = page_end \<and>
   page_end \<notin> set (butlast (ability_cards_one_page self cps)) \<and>
   images (butlast (ability_cards_one_page self cps)) = map (IncludeGraphics '''') cps"
proof -
  obtain body where "ability_cards_one_page self cps = body @ [page_end]"
    "page_end \<notin> set body" "images body = map (IncludeGraphics '''') cps"
    using ability_page_shape by blast
  then show ?thesis by simp
qed

lemma ability_cards_pages:
  "ability_cards self cps back =
     concat (concat (map (\<lambda>i.
       [ability_cards_one_page self (slice cps (2 * cards_per_line self * i) (2 * cards_per_line self * (i + 1))),
        ability_cards_one_page self
          (replicate (length (slice cps (2 * cards_per_line self * i) (2 * cards_per_line self * (i + 1)))) back)])
       [0..<length cps div (2 * cards_per_line self) + 1]))"
  unfolding ability_cards_def cards_per_line_def Let_def
  by (rule concat_pairs)

lemma ability_pages_images:
  "map images (pages_of (ability_cards self cps back)) =
     concat (map (\<lambda>i.
       [map (IncludeGraphics '''') (slice cps (2 * cards_per_line self * i) (2 * cards_per_line self * (i + 1))),
        replicate (length (slice cps (2 * cards_per_line self * i) (2 * cards_per_line self * (i + 1))))
          (IncludeGraphics '''' back)])
       [0..<length cps div (2 * cards_per_line self) + 1])"
proof -
  let ?ps = "concat (map (\<lambda>i.
       [ability_cards_one_page self (slice cps (2 * cards_per_line self * i) (2 * cards_per_line self * (i + 1))),
        ability_cards_one_page self
          (replicate (length (slice cps (2 * cards_per_line self * i) (2 * cards_per_line self * (i + 1)))) back)])
       [0..<length cps div (2 * cards_per_line self) + 1])"
  have "pages_of (concat ?ps) = map butlast ?ps"
    by (rule pages_of_concat) (auto simp: ability_page)
  then have "map images (pages_of (ability_cards self cps back)) = map (images \<circ> butlast) ?ps"
    by (simp add: ability_cards_pages)
  also have "\<dots> = concat (map (\<lambda>i.
       [map (IncludeGraphics '''') (slice cps (2 * cards_per_line self * i) (2 * cards_per_line self * (i + 1))),
        replicate (length (slice cps (2 * cards_per_line self * i) (2 * cards_per_line self * (i + 1))))
          (IncludeGraphics '''' back)])
       [0..<length cps div (2 * cards_per_line self) + 1])"
    by (simp add: map_concat comp_def ability_page map_replicate)
  finally show ?thesis .
qed


lemma images_Text: "images (Text s # xs) = images xs" "images [] = []"
  by (simp_all add: images_def)

lemma images_with_Text: "images_with opts (Text s # xs) = images_with opts xs" "images_with opts [] = []"
  by (simp_all add: images_with_def)

lemma amd_opts_neq_token: "amd_opts self \<noteq> token_opts"
  by (simp add: amd_opts_def token_opts_def)

lemma amd_page_shape:
  "\<exists>body. amd_cards_one_page self ps tok = body @ [page_end] \<and> page_end \<notin> set body \<and>
          images_with (amd_opts self) body = map (IncludeGraphics (amd_opts self)) ps \<and>
          images_with token_opts body = (case tok of None \<Rightarrow> [] | Some t \<Rightarrow> token_images t) \<and>
          images body = map (IncludeGraphics (amd_opts self)) ps @
                        (case tok of None \<Rightarrow> [] | Some t \<Rightarrow> token_images t)"
proof -
  define step where "step = (\<lambda>i.
                  [Text ''  '', IncludeGraphics (amd_opts self) (ps ! i)] @
                  (if i \<noteq> length ps - 1 \<and> i \<noteq> 4
                   then [Text (bs # ''hspace{0cm}%'' @ ''\<newline>'')] else []) @
                  (if i = 4
                   then [Text (''\<newline>}\<newline>'' @ bs # ''makebox['' @ bs # ''textwidth]{\<newline>'')]
                   else []))"
  define tstep where "tstep = (\<lambda>t (i::nat).
                   [Text ''  '', IncludeGraphics ''[width=1.45cm]'' t,
                    Text (bs # ''hspace{0cm}%'' @ ''\<newline>''),
                    Text ''  '', Mirrored ''[width=1.45cm]'' t] @
                   (if i \<noteq> 9 then [Text (bs # ''hspace{0cm}%'' @ ''\<newline>'')] else []))"
  define tokens where "tokens = (case tok of
               None \<Rightarrow> []
             | Some token \<Rightarrow>
                 [Text (''\<newline>}\<newline>'' @ bs # ''makebox[1'' @ bs # ''textwidth]{'' @ ''\<newline>'')] @
                 concat (map (tstep token) [0..<5]))"
  define cards where "cards = [Text (bs # ''begin{figure}[ht]\<newline>  '' @ bs # ''centering\<newline>'' @
                       bs # ''setkeys{Gin}{width=6.9cm}\<newline>'' @
                       bs # ''makebox[1'' @ bs # ''textwidth]{\<newline>'')] @ concat (map step [0..<length ps])"
  have 1: "amd_cards_one_page self ps tok = (cards @ tokens) @ [page_end]"
    by (simp add: amd_cards_one_page_def cards_def tokens_def step_def tstep_def amd_opts_def
        page_end_def Let_def split: option.split)
  have st: "\<And>i. page_end \<notin> set (step i)"
    by (simp add: step_def page_end_def bs_def)
  have tst: "\<And>t i. page_end \<notin> set (tstep t i)"
    by (simp add: tstep_def page_end_def bs_def)
  have c_end: "page_end \<notin> set cards"
    using st by (auto simp: cards_def page_end_def bs_def)
  have t_end: "page_end \<notin> set tokens"
    using tst by (auto simp: tokens_def page_end_def bs_def split: option.split)
  have im: "\<And>i. images (step i) = [IncludeGraphics (amd_opts self) (ps ! i)]"
    "\<And>i. images_with (amd_opts self) (step i) = [IncludeGraphics (amd_opts self) (ps ! i)]"
    "\<And>i. images_with token_opts (step i) = []"
    using amd_opts_neq_token [of self] by (simp_all add: step_def images_def images_with_def)
  have tim: "\<And>t i. i < 5 \<Longrightarrow> images (tstep t i) = [IncludeGraphics token_opts t, Mirrored token_opts t]"
    "\<And>t i. i < 5 \<Longrightarrow> images_with token_opts (tstep t i) = [IncludeGraphics token_opts t, Mirrored token_opts t]"
    "\<And>t i. images_with (amd_opts self) (tstep t i) = []"
    using amd_opts_neq_token [of self]
    by (simp_all add: tstep_def images_def images_with_def token_opts_def)
  have upt5: "[0..<5] = [0, 1, 2, 3, 4::nat]"
    by (simp add: upt_rec)
  have c1: "images cards = map (IncludeGraphics (amd_opts self)) ps"
    by (simp add: cards_def images_Text images_concat comp_def im map_nth_upt)
  have c2: "images_with (amd_opts self) cards = map (IncludeGraphics (amd_opts self)) ps"
    by (simp add: cards_def images_with_Text images_with_concat comp_def im map_nth_upt)
  have c3: "images_with token_opts cards = []"
    by (simp add: cards_def images_with_Text images_with_concat comp_def im)
  have t1: "images tokens = (case tok of None \<Rightarrow> [] | Some t \<Rightarrow> token_images t)"
    by (simp add: tokens_def images_Text images_append upt5 tim token_images_def numeral_eq_Suc
        split: option.split)
  have t2: "images_with token_opts tokens = (case tok of None \<Rightarrow> [] | Some t \<Rightarrow> token_images t)"
    by (simp add: tokens_def images_with_Text images_with_append upt5 tim token_images_def
        numeral_eq_Suc split: option.split)
  have t3: "images_with (amd_opts self) tokens = []"
    by (simp add: tokens_def images_with_Text images_with_concat comp_def tim split: option.split)
  show ?thesis
    using 1 c_end t_end c1 c2 c3 t1 t2 t3
    by (intro exI [of _ "cards @ tokens"]) (simp add: images_append images_with_append)
qed

lemma amd_page:
  "amd_cards_one_page self ps tok \<noteq> [] \<and> last (amd_cards_one_page self ps tok) = page_end \<and>
   page_end \<notin> set (butlast (amd_cards_one_page self ps tok)) \<and>
   images_with (amd_opts self) (butlast (amd_cards_one_page self ps tok)) =
     map (IncludeGraphics (amd_opts self)) ps \<and>
   images_with token_opts (butlast (amd_cards_one_page self ps tok)) =
     (case tok of None \<Rightarrow> [] | Some t \<Rightarrow> token_images t) \<and>
   images (butlast (amd_cards_one_page self ps tok)) =
     map (IncludeGraphics (amd_opts self)) ps @ (case tok of None \<Rightarrow> [] | Some t \<Rightarrow> token_images t)"
proof -
  obtain body where "amd_cards_one_page self ps tok = body @ [page_end]" "page_end \<notin> set body"
    "images_with (amd_opts self) body = map (IncludeGraphics (amd_opts self)) ps"
    "images_with token_opts body = (case tok of None \<Rightarrow> [] | Some t \<Rightarrow> token_images t)"
    "images body = map (IncludeGraphics (amd_opts self)) ps @
                        (case tok of None \<Rightarrow> [] | Some t \<Rightarrow> token_images t)"
    using amd_page_shape by blast
  then show ?thesis by simp
qed

lemma amd_cards_pages:
  "pages_of (amd_cards self seq tok) =
     map (\<lambda>i. butlast
             (if i \<noteq> (length seq + 9) div 10 - 1
              then amd_cards_one_page self (slice seq (10 * i) (10 * (i + 1))) None
              else amd_cards_one_page self (slice seq (10 * i) (10 * (i + 1))) (Some tok)))
       [0..<(length seq + 9) div 10]"
proof -
  let ?page = "\<lambda>i. if i \<noteq> (length seq + 9) div 10 - 1
              then amd_cards_one_page self (slice seq (10 * i) (10 * (i + 1))) None
              else amd_cards_one_page self (slice seq (10 * i) (10 * (i + 1))) (Some tok)"
  have np: "(length seq + 10 - 1) div 10 = (length seq + 9) div 10"
    by (simp add: add.commute)
  have "amd_cards self seq tok = concat (map ?page [0..<(length seq + 9) div 10])"
    unfolding amd_cards_def Let_def np ..
  moreover have "pages_of (concat (map ?page [0..<(length seq + 9) div 10])) =
     map butlast (map ?page [0..<(length seq + 9) div 10])"
    by (rule pages_of_concat) (auto simp: amd_page)
  ultimately show ?thesis
    by (simp add: comp_def)
qed

lemma amd_page_if:
  "images_with (amd_opts self)
     (butlast (if c then amd_cards_one_page self ps None
               else amd_cards_one_page self ps (Some tok))) =
   map (IncludeGraphics (amd_opts self)) ps"
  "images_with token_opts
     (butlast (if c then amd_cards_one_page self ps None
               else amd_cards_one_page self ps (Some tok))) =
   (if c then [] else token_images tok)"
  by (simp_all add: amd_page)

lemma amd_pages_cards:
  "map (images_with (amd_opts self)) (pages_of (amd_cards self seq tok)) =
     map (\<lambda>i. map (IncludeGraphics (amd_opts self)) (slice seq (10 * i) (10 * (i + 1))))
       [0..<(length seq + 9) div 10]"
  by (simp only: amd_cards_pages map_map comp_def amd_page_if)

lemma amd_pages_tokens:
  "map (images_with token_opts) (pages_of (amd_cards self seq tok)) =
     map (\<lambda>i. if i \<noteq> (length seq + 9) div 10 - 1 then [] else token_images tok)
       [0..<(length seq + 9) div 10]"
  by (simp only: amd_cards_pages map_map comp_def amd_page_if)

lemma concat_slices:
  "concat (map (\<lambda>i. slice xs (k * i) (k * (i + 1))) [0..<m]) = take (k * m) xs"
proof (induction m)
  case 0
  show ?case by simp
next
  case (Suc m)
  have "take (k * m) xs @ take k (drop (k * m) xs) = take (k * m + k) xs"
    by (simp add: take_add)
  then show ?case
    using Suc by (simp add: slice_def add.commute)
qed

lemma concat_slices_all:
  "length xs \<le> k * m \<Longrightarrow> concat (map (\<lambda>i. slice xs (k * i) (k * (i + 1))) [0..<m]) = xs"
  using concat_slices [of xs k m] by simp

lemma length_concat_pairs: "length (concat (map (\<lambda>i. [A i, B i]) js)) = 2 * length js"
  by (induction js) simp_all

section \<open>Ability-card pages\<close>

text \<open>
  Claim C1 says that \<open>N\<close> ability cards give \<open>ceil (N / C)\<close> front pages and that no
  page is ever empty. \<^verbatim>\<open>ability_cards\<close> runs \<^verbatim>\<open>len(card_paths) // (2 * cards_per_line) + 1\<close>
  times, one more than the ceiling when \<open>C\<close> divides \<open>N\<close>: with eight cards on A4
  the pages hold 8 fronts, 8 backs, then 0 fronts and 0 backs. (\<^verbatim>\<open>amd_cards\<close> of the
  same file computes its page count by ceiling division.)
\<close>

theorem ability_cards_full_page_emits_empty_pages:
  "map length (map images
     (pages_of (ability_cards
        \<lparr>path_to_root_dir = ''cls'', output_path = ''out.tex'', is_a4 = True,
          has_bleed = True, rotate_amd_cards = True\<rparr>
        [''cls/AbilityCards/c1.png'', ''cls/AbilityCards/c2.png'', ''cls/AbilityCards/c3.png'',
         ''cls/AbilityCards/c4.png'', ''cls/AbilityCards/c5.png'', ''cls/AbilityCards/c6.png'',
         ''cls/AbilityCards/c7.png'', ''cls/AbilityCards/c8.png'']
        ''cls/ability_card_back.png''))) = [8, 8, 0, 0]"
proof -
  have "[0..<2] = [0, 1::nat]"
    by (simp add: upt_rec)
  then show ?thesis
    unfolding ability_pages_images
    by (simp add: cards_per_line_def slice_def)
qed

text \<open>
  Claim C5: for every list of ability-card images, every front page is directly followed
  by a page of the back plate repeated once per image of that front page, so there are as
  many back pages as front pages. The pages of the section are, for each index \<open>i\<close> of
  the loop, the images of the \<open>i\<close>-th slice and then as many copies of the back plate.
\<close>

theorem ability_back_page_follows_each_front:
  "map images (pages_of (ability_cards self cps plate)) =
     concat (map (\<lambda>i.
       [map (IncludeGraphics '''')
          (slice cps (2 * cards_per_line self * i) (2 * cards_per_line self * (i + 1))),
        replicate
          (length (slice cps (2 * cards_per_line self * i) (2 * cards_per_line self * (i + 1))))
          (IncludeGraphics '''' plate)])
       [0..<length cps div (2 * cards_per_line self) + 1]) \<and>
   length (pages_of (ability_cards self cps plate)) =
     2 * (length cps div (2 * cards_per_line self) + 1)"
proof -
  have "length (pages_of (ability_cards self cps plate)) =
        length (map images (pages_of (ability_cards self cps plate)))"
    by simp
  also have "\<dots> = 2 * length [0..<length cps div (2 * cards_per_line self) + 1]"
    by (simp only: ability_pages_images length_concat_pairs)
  finally have "length (pages_of (ability_cards self cps plate)) =
     2 * (length cps div (2 * cards_per_line self) + 1)"
    by simp
  then show ?thesis
    using ability_pages_images [of self cps plate] by blast
qed

section \<open>AMD and NON\_AMD pages\<close>

lemma amd_page_if_images:
  "images (butlast (if c then amd_cards_one_page self ps None
                    else amd_cards_one_page self ps (Some tok))) =
   map (IncludeGraphics (amd_opts self)) ps @ (if c then [] else token_images tok)"
  by (simp add: amd_page)

lemma amd_pages_all_images:
  "map images (pages_of (amd_cards self seq tok)) =
     map (\<lambda>i. map (IncludeGraphics (amd_opts self)) (slice seq (10 * i) (10 * (i + 1))) @
              (if i \<noteq> (length seq + 9) div 10 - 1 then [] else token_images tok))
       [0..<(length seq + 9) div 10]"
  by (simp only: amd_cards_pages map_map comp_def amd_page_if_images)

lemma concat_last_marked:
  "concat (map (\<lambda>i. A i @ (if i \<noteq> n - 1 then [] else T)) [0..<n]) =
     concat (map A [0..<n]) @ (if n = 0 then [] else T)"
proof (cases n)
  case 0
  then show ?thesis by simp
next
  case (Suc k)
  have "map (\<lambda>i. A i @ (if i \<noteq> k then [] else T)) [0..<k] = map A [0..<k]"
    by (rule map_cong) simp_all
  then have "concat (map (\<lambda>i. A i @ (if i \<noteq> k then [] else T)) [0..<k]) = concat (map A [0..<k])"
    by (rule arg_cong)
  then show ?thesis
    by (simp add: Suc)
qed

lemma amd_all_images_concat:
  "concat (map images (pages_of (amd_cards self seq tok))) =
     map (IncludeGraphics (amd_opts self)) seq @ (if seq = [] then [] else token_images tok)"
proof -
  let ?np = "(length seq + 9) div 10"
  let ?A = "\<lambda>i. map (IncludeGraphics (amd_opts self)) (slice seq (10 * i) (10 * (i + 1)))"
  have "length seq \<le> 10 * ?np"
    by arith
  then have cs: "concat (map (\<lambda>i. slice seq (10 * i) (10 * (i + 1))) [0..<?np]) = seq"
    by (rule concat_slices_all)
  have "concat (map ?A [0..<?np]) =
        map (IncludeGraphics (amd_opts self)) (concat (map (\<lambda>i. slice seq (10 * i) (10 * (i + 1))) [0..<?np]))"
    by (simp only: map_concat map_map comp_def)
  then have cards: "concat (map ?A [0..<?np]) = map (IncludeGraphics (amd_opts self)) seq"
    by (simp only: cs)
  have "(?np = 0) = (length seq = 0)"
    by arith
  then have zero: "(?np = 0) = (seq = [])"
    by simp
  have "concat (map images (pages_of (amd_cards self seq tok))) =
        concat (map ?A [0..<?np]) @ (if ?np = 0 then [] else token_images tok)"
    by (simp only: amd_pages_all_images concat_last_marked)
  then show ?thesis
    by (simp only: cards zero)
qed

lemma all_amd_cards_eq:
  "all_amd_cards fs self =
     map sanitize_path (amd_paths fs self) @ map sanitize_path (non_amd_paths fs self) @
     replicate (length (amd_paths fs self)) (sanitize_path (asset_path fs self ''amd_back'')) @
     replicate (length (non_amd_paths fs self)) (sanitize_path (asset_path fs self ''non_amd_back''))"
  by (simp add: all_amd_cards_def amd_backs_def non_amd_backs_def Let_def map_replicate_const)

lemma length_all_amd_cards:
  "length (all_amd_cards fs self) = 2 * (length (amd_paths fs self) + length (non_amd_paths fs self))"
  by (simp add: all_amd_cards_eq)

lemma sorted_folder_images: "sorted (folder_images fs self folder)"
  by (simp add: folder_images_def)

lemma three_amd_cards:
  "amd_paths (class_dir [] [''a2.png'', ''a1.jpg'', ''a3.png''] []) cls_generator =
     [''cls/AMD/a1.jpg'', ''cls/AMD/a2.png'', ''cls/AMD/a3.png'']"
  "non_amd_paths (class_dir [] [''a2.png'', ''a1.jpg'', ''a3.png''] []) cls_generator = []"
  "asset_path (class_dir [] [''a2.png'', ''a1.jpg'', ''a3.png''] []) cls_generator ''amd_back'' =
     ''cls/amd_back.jpg''"
  by code_simp+

lemma one_amd_card:
  "amd_paths (class_dir [] [''a1.jpg''] []) cls_generator = [''cls/AMD/a1.jpg'']"
  "non_amd_paths (class_dir [] [''a1.jpg''] []) cls_generator = []"
  "asset_path (class_dir [] [''a1.jpg''] []) cls_generator ''amd_back'' = ''cls/amd_back.jpg''"
  by code_simp+

lemma sanitize_plain:
  "sanitize_path ''cls/AMD/a1.jpg'' = ''cls/AMD/a1.jpg''"
  "sanitize_path ''cls/AMD/a2.png'' = ''cls/AMD/a2.png''"
  "sanitize_path ''cls/AMD/a3.png'' = ''cls/AMD/a3.png''"
  "sanitize_path ''cls/amd_back.jpg'' = ''cls/amd_back.jpg''"
  by (simp_all add: sanitize_path_def bs_def)

text \<open>
  Claim C3 says that the images emitted on all AMD pages number \<open>2 * (N + M)\<close>. With
  one AMD card and no NON\_AMD card that is 2, and the only AMD page holds 12 images: the
  front, its back plate and the ten token images.
\<close>

theorem amd_pages_also_hold_token_images:
  "length (concat (map images
     (pages_of (amd_section (class_dir [] [''a1.jpg''] []) cls_generator)))) = 12 \<and>
   2 * (length (amd_paths (class_dir [] [''a1.jpg''] []) cls_generator) +
        length (non_amd_paths (class_dir [] [''a1.jpg''] []) cls_generator)) = 2"
  by (simp add: amd_section_def amd_all_images_concat all_amd_cards_eq one_amd_card
      token_images_def numeral_eq_Suc)

text \<open>
  Claim C3, amended: the AMD fronts, then the NON\_AMD fronts, then one AMD back plate per
  AMD front and one NON\_AMD back plate per NON\_AMD front form one sequence, which is cut
  into pages of ten. Read off the output, the card images of the pages are the
  consecutive slices of ten of that sequence; together they are the whole sequence, each
  entry once, \<open>2 * (N + M)\<close> card images in all. An empty folder adds no entry. The
  only other images of these pages are the ten token images that follow the cards of the
  last page.
\<close>

theorem amd_pagination_keeps_every_image:
  "all_amd_cards fs self =
     map sanitize_path (amd_paths fs self) @ map sanitize_path (non_amd_paths fs self) @
     replicate (length (amd_paths fs self)) (sanitize_path (asset_path fs self ''amd_back'')) @
     replicate (length (non_amd_paths fs self)) (sanitize_path (asset_path fs self ''non_amd_back'')) \<and>
   map (images_with (amd_opts self)) (pages_of (amd_section fs self)) =
     map (\<lambda>i. map (IncludeGraphics (amd_opts self)) (slice (all_amd_cards fs self) (10 * i) (10 * (i + 1))))
       [0..<(length (all_amd_cards fs self) + 9) div 10] \<and>
   concat (map (images_with (amd_opts self)) (pages_of (amd_section fs self))) =
     map (IncludeGraphics (amd_opts self)) (all_amd_cards fs self) \<and>
   length (concat (map (images_with (amd_opts self)) (pages_of (amd_section fs self)))) =
     2 * (length (amd_paths fs self) + length (non_amd_paths fs self)) \<and>
   concat (map images (pages_of (amd_section fs self))) =
     map (IncludeGraphics (amd_opts self)) (all_amd_cards fs self) @
     (if all_amd_cards fs self = [] then []
      else token_images (sanitize_path (asset_path fs self ''character_token'')))"
proof -
  let ?seq = "all_amd_cards fs self"
  let ?np = "(length ?seq + 9) div 10"
  have pages: "map (images_with (amd_opts self)) (pages_of (amd_section fs self)) =
     map (\<lambda>i. map (IncludeGraphics (amd_opts self)) (slice ?seq (10 * i) (10 * (i + 1)))) [0..<?np]"
    unfolding amd_section_def by (rule amd_pages_cards)
  have "length ?seq \<le> 10 * ?np"
    by arith
  then have cs: "concat (map (\<lambda>i. slice ?seq (10 * i) (10 * (i + 1))) [0..<?np]) = ?seq"
    by (rule concat_slices_all)
  have "concat (map (\<lambda>i. map (IncludeGraphics (amd_opts self)) (slice ?seq (10 * i) (10 * (i + 1)))) [0..<?np]) =
        map (IncludeGraphics (amd_opts self)) (concat (map (\<lambda>i. slice ?seq (10 * i) (10 * (i + 1))) [0..<?np]))"
    by (simp only: map_concat map_map comp_def)
  then have all: "concat (map (images_with (amd_opts self)) (pages_of (amd_section fs self))) =
     map (IncludeGraphics (amd_opts self)) ?seq"
    by (simp only: pages cs)
  have "length (concat (map (images_with (amd_opts self)) (pages_of (amd_section fs self)))) =
     2 * (length (amd_paths fs self) + length (non_amd_paths fs self))"
    by (simp only: all length_map length_all_amd_cards)
  moreover have "concat (map images (pages_of (amd_section fs self))) =
     map (IncludeGraphics (amd_opts self)) ?seq @
     (if ?seq = [] then []
      else token_images (sanitize_path (asset_path fs self ''character_token'')))"
    unfolding amd_section_def by (rule amd_all_images_concat)
  ultimately show ?thesis
    using pages all all_amd_cards_eq [of fs self] by blast
qed

lemma map_last_marked:
  "0 < n \<Longrightarrow> map (\<lambda>i. if i \<noteq> n - 1 then a else b) [0..<n] = replicate (n - 1) a @ [b]"
proof -
  assume "0 < n"
  then obtain k where n: "n = Suc k"
    by (cases n) simp_all
  have "map (\<lambda>i. if i \<noteq> k then a else b) [0..<k] = map (\<lambda>i. a) [0..<k]"
    by (rule map_cong) simp_all
  then show ?thesis
    by (simp add: n map_replicate_const)
qed

lemma amd_pages_length: "length (pages_of (amd_cards self seq tok)) = (length seq + 9) div 10"
  by (simp add: amd_cards_pages)

lemma token_images_eq:
  "token_images tok =
     [IncludeGraphics ''[width=1.45cm]'' tok, Mirrored ''[width=1.45cm]'' tok,
      IncludeGraphics ''[width=1.45cm]'' tok, Mirrored ''[width=1.45cm]'' tok,
      IncludeGraphics ''[width=1.45cm]'' tok, Mirrored ''[width=1.45cm]'' tok,
      IncludeGraphics ''[width=1.45cm]'' tok, Mirrored ''[width=1.45cm]'' tok,
      IncludeGraphics ''[width=1.45cm]'' tok, Mirrored ''[width=1.45cm]'' tok]"
  by (simp add: token_images_def token_opts_def numeral_eq_Suc)

text \<open>
  Claim C4: when the AMD section has at least one page, the token images are on its last
  page and on no page before it, whatever the number of cards on that page, and they are
  ten: five times the token image followed by its mirrored copy.
\<close>

theorem tokens_only_on_last_amd_page:
  assumes "pages_of (amd_cards self seq tok) \<noteq> []"
  shows "map (images_with ''[width=1.45cm]'') (pages_of (amd_cards self seq tok)) =
           replicate (length (pages_of (amd_cards self seq tok)) - 1) [] @
           [[IncludeGraphics ''[width=1.45cm]'' tok, Mirrored ''[width=1.45cm]'' tok,
             IncludeGraphics ''[width=1.45cm]'' tok, Mirrored ''[width=1.45cm]'' tok,
             IncludeGraphics ''[width=1.45cm]'' tok, Mirrored ''[width=1.45cm]'' tok,
             IncludeGraphics ''[width=1.45cm]'' tok, Mirrored ''[width=1.45cm]'' tok,
             IncludeGraphics ''[width=1.45cm]'' tok, Mirrored ''[width=1.45cm]'' tok]]"
proof -
  let ?np = "(length seq + 9) div 10"
  have len: "length (pages_of (amd_cards self seq tok)) = ?np"
    by (rule amd_pages_length)
  with assms have "0 < ?np"
    by (metis length_greater_0_conv)
  then have "map (\<lambda>i. if i \<noteq> ?np - 1 then [] else token_images tok) [0..<?np] =
             replicate (?np - 1) [] @ [token_images tok]"
    by (rule map_last_marked)
  then have "map (images_with token_opts) (pages_of (amd_cards self seq tok)) =
             replicate (?np - 1) [] @ [token_images tok]"
    by (simp only: amd_pages_tokens)
  then show ?thesis
    by (simp add: len token_images_eq token_opts_def)
qed

text \<open>
  Six fronts and six back plates fill one page and leave two cards for a second one,
  which carries the tokens.
\<close>

theorem tokens_only_on_last_amd_page_witness:
  "pages_of (amd_cards cls_generator
     [''a1'', ''a2'', ''a3'', ''a4'', ''a5'', ''a6'', ''b'', ''b'', ''b'', ''b'', ''b'', ''b''] ''t'') \<noteq> [] \<and>
   map (images_with ''[width=1.45cm]'') (pages_of (amd_cards cls_generator
     [''a1'', ''a2'', ''a3'', ''a4'', ''a5'', ''a6'', ''b'', ''b'', ''b'', ''b'', ''b'', ''b''] ''t'')) =
     [[], [IncludeGraphics ''[width=1.45cm]'' ''t'', Mirrored ''[width=1.45cm]'' ''t'',
           IncludeGraphics ''[width=1.45cm]'' ''t'', Mirrored ''[width=1.45cm]'' ''t'',
           IncludeGraphics ''[width=1.45cm]'' ''t'', Mirrored ''[width=1.45cm]'' ''t'',
           IncludeGraphics ''[width=1.45cm]'' ''t'', Mirrored ''[width=1.45cm]'' ''t'',
           IncludeGraphics ''[width=1.45cm]'' ''t'', Mirrored ''[width=1.45cm]'' ''t'']]"
proof -
  have ne: "pages_of (amd_cards cls_generator
     [''a1'', ''a2'', ''a3'', ''a4'', ''a5'', ''a6'', ''b'', ''b'', ''b'', ''b'', ''b'', ''b''] ''t'') \<noteq> []"
    by (simp add: amd_cards_pages upt_rec)
  have "length (pages_of (amd_cards cls_generator
     [''a1'', ''a2'', ''a3'', ''a4'', ''a5'', ''a6'', ''b'', ''b'', ''b'', ''b'', ''b'', ''b''] ''t'')) = 2"
    by (simp add: amd_pages_length)
  with ne tokens_only_on_last_amd_page [OF ne] show ?thesis
    by simp
qed

lemma images_with_none:
  "(\<And>x. x \<in> set ps \<Longrightarrow> image_opts x \<noteq> Some opts) \<Longrightarrow> images_with opts ps = []"
  by (simp add: images_with_def)

lemma ability_page_opts:
  "x \<in> set (ability_cards_one_page self cps) \<Longrightarrow> image_opts x = None \<or> image_opts x = Some ''''"
  by (auto simp: ability_cards_one_page_def Let_def split: if_splits)

lemma ability_cards_opts:
  "x \<in> set (ability_cards self cps plate) \<Longrightarrow> image_opts x = None \<or> image_opts x = Some ''''"
  by (auto simp: ability_cards_def Let_def dest: ability_page_opts)

lemma ability_no_other_images:
  "opts \<noteq> '''' \<Longrightarrow> images_with opts (ability_cards self cps plate) = []"
  by (rule images_with_none) (use ability_cards_opts in fastforce)

lemma amd_page_opts:
  "x \<in> set (amd_cards_one_page self ps tok) \<Longrightarrow>
   image_opts x = None \<or> image_opts x = Some (amd_opts self) \<or> image_opts x = Some token_opts"
  by (auto simp: amd_cards_one_page_def amd_opts_def token_opts_def Let_def
      split: if_splits option.splits)

lemma amd_cards_opts:
  "x \<in> set (amd_cards self seq tok) \<Longrightarrow>
   image_opts x = None \<or> image_opts x = Some (amd_opts self) \<or> image_opts x = Some token_opts"
  by (auto simp: amd_cards_def Let_def dest: amd_page_opts split: if_splits)

lemma amd_no_other_images:
  "opts \<noteq> amd_opts self \<Longrightarrow> opts \<noteq> token_opts \<Longrightarrow> images_with opts (amd_cards self seq tok) = []"
  by (rule images_with_none) (use amd_cards_opts in fastforce)

lemma header_no_images: "images_with opts (header self) = []"
  by (simp add: header_def Let_def images_with_def)

lemma end_document_no_images: "images_with opts end_document = []"
  by (simp add: end_document_def images_with_def)

lemma amd_cards_Nil: "amd_cards self [] tok = []"
  by (simp add: amd_cards_def)

text \<open>
  Claim C9: when the AMD and the NON\_AMD folder hold no image, the AMD section is empty,
  it has no page, and no token image stands anywhere in the document, although the token
  asset is resolved in every run.
\<close>

theorem no_tokens_without_amd_cards:
  assumes "amd_paths fs self = []" and "non_amd_paths fs self = []"
  shows "amd_section fs self = [] \<and> pages_of (amd_section fs self) = [] \<and>
         images_with ''[width=1.45cm]'' (latex_code fs self) = []"
proof -
  have "all_amd_cards fs self = []"
    using assms by (simp add: all_amd_cards_eq)
  then have empty: "amd_section fs self = []"
    by (simp add: amd_section_def amd_cards_Nil)
  have "images_with ''[width=1.45cm]'' (ability_section fs self) = []"
    unfolding ability_section_def by (rule ability_no_other_images) simp
  moreover have "images_with ''[width=1.45cm]'' (mat_section fs self) = []"
    by (simp add: mat_section_def character_mat_def images_with_def)
  moreover have "images_with ''[width=1.45cm]'' (sheet_section fs self) = []"
    by (simp add: sheet_section_def character_sheet_def images_with_def Let_def)
  ultimately have "images_with ''[width=1.45cm]'' (latex_code fs self) = []"
    by (simp add: latex_code_def images_with_append header_no_images end_document_no_images empty)
  with empty show ?thesis
    by simp
qed

text \<open>A class directory with two ability cards and no AMD or NON\_AMD card.\<close>

theorem no_tokens_without_amd_cards_witness:
  "amd_paths (class_dir [''c1.png'', ''c2.jpg''] [] []) cls_generator = [] \<and>
   non_amd_paths (class_dir [''c1.png'', ''c2.jpg''] [] []) cls_generator = [] \<and>
   amd_section (class_dir [''c1.png'', ''c2.jpg''] [] []) cls_generator = [] \<and>
   images_with ''[width=1.45cm]'' (latex_code (class_dir [''c1.png'', ''c2.jpg''] [] []) cls_generator) = []"
proof -
  have 1: "amd_paths (class_dir [''c1.png'', ''c2.jpg''] [] []) cls_generator = []"
    by (simp add: amd_paths_def folder_images_def glob_def class_dir_def mk_fs_def
        cls_generator_def joinpath_def)
  have 2: "non_amd_paths (class_dir [''c1.png'', ''c2.jpg''] [] []) cls_generator = []"
    by (simp add: non_amd_paths_def folder_images_def glob_def class_dir_def mk_fs_def
        cls_generator_def joinpath_def)
  from 1 2 no_tokens_without_amd_cards [OF 1 2] show ?thesis
    by simp
qed

text \<open>
  Claim C10 says that in the flat AMD sequence a back image is never next to its own
  front. With a single AMD card and no NON\_AMD card the sequence is that front followed
  by its back plate.
\<close>

theorem single_amd_back_is_adjacent_to_its_front:
  "amd_paths (class_dir [] [''a1.jpg''] []) cls_generator = [''cls/AMD/a1.jpg''] \<and>
   amd_backs (class_dir [] [''a1.jpg''] []) cls_generator = [''cls/amd_back.jpg''] \<and>
   non_amd_paths (class_dir [] [''a1.jpg''] []) cls_generator = [] \<and>
   all_amd_cards (class_dir [] [''a1.jpg''] []) cls_generator =
     [''cls/AMD/a1.jpg'', ''cls/amd_back.jpg'']"
  by (simp add: all_amd_cards_eq amd_backs_def one_amd_card sanitize_plain)

text \<open>
  Claim C10, amended: the sequence that is paginated is the sorted AMD fronts, the sorted
  NON\_AMD fronts, \<open>N\<close> copies of the AMD back plate and \<open>M\<close> copies of the NON\_AMD
  back plate (each path sanitized), so every front comes before every back and the back
  of the \<open>i\<close>-th front stands \<open>N + M\<close> places after it: next to it only when
  \<open>N + M = 1\<close>. A page can hold fronts and backs together: with three AMD cards the
  only page holds the three fronts and then the three back plates.
\<close>

theorem amd_sequence_fronts_then_backs:
  "all_amd_cards fs self =
     map sanitize_path (amd_paths fs self) @ map sanitize_path (non_amd_paths fs self) @
     replicate (length (amd_paths fs self)) (sanitize_path (asset_path fs self ''amd_back'')) @
     replicate (length (non_amd_paths fs self)) (sanitize_path (asset_path fs self ''non_amd_back'')) \<and>
   sorted (amd_paths fs self) \<and> sorted (non_amd_paths fs self) \<and>
   (\<forall>i < length (amd_paths fs self) + length (non_amd_paths fs self).
      all_amd_cards fs self ! i = sanitize_path ((amd_paths fs self @ non_amd_paths fs self) ! i) \<and>
      all_amd_cards fs self ! (length (amd_paths fs self) + length (non_amd_paths fs self) + i) =
        sanitize_path ((amd_backs fs self @ non_amd_backs fs self) ! i)) \<and>
   map (images_with ''[angle=90, width=4.4cm]'')
     (pages_of (amd_section (class_dir [] [''a2.png'', ''a1.jpg'', ''a3.png''] []) cls_generator)) =
     [[IncludeGraphics ''[angle=90, width=4.4cm]'' ''cls/AMD/a1.jpg'',
       IncludeGraphics ''[angle=90, width=4.4cm]'' ''cls/AMD/a2.png'',
       IncludeGraphics ''[angle=90, width=4.4cm]'' ''cls/AMD/a3.png'',
       IncludeGraphics ''[angle=90, width=4.4cm]'' ''cls/amd_back.jpg'',
       IncludeGraphics ''[angle=90, width=4.4cm]'' ''cls/amd_back.jpg'',
       IncludeGraphics ''[angle=90, width=4.4cm]'' ''cls/amd_back.jpg'']]"
proof -
  let ?fronts = "amd_paths fs self @ non_amd_paths fs self"
  let ?backs = "amd_backs fs self @ non_amd_backs fs self"
  have seq: "all_amd_cards fs self = map sanitize_path ?fronts @ map sanitize_path ?backs"
    by (simp add: all_amd_cards_def Let_def)
  have len: "length ?backs = length ?fronts"
    by (simp add: amd_backs_def non_amd_backs_def)
  have idx: "\<forall>i < length (amd_paths fs self) + length (non_amd_paths fs self).
      all_amd_cards fs self ! i = sanitize_path (?fronts ! i) \<and>
      all_amd_cards fs self ! (length (amd_paths fs self) + length (non_amd_paths fs self) + i) =
        sanitize_path (?backs ! i)"
  proof (intro allI impI)
    fix i
    assume i: "i < length (amd_paths fs self) + length (non_amd_paths fs self)"
    then have "i < length (map sanitize_path ?fronts)" "i < length ?backs"
      using len by simp_all
    then show "all_amd_cards fs self ! i = sanitize_path (?fronts ! i) \<and>
      all_amd_cards fs self ! (length (amd_paths fs self) + length (non_amd_paths fs self) + i) =
        sanitize_path (?backs ! i)"
      unfolding seq by (simp add: nth_append del: map_append)
  qed
  have opts: "amd_opts cls_generator = ''[angle=90, width=4.4cm]''"
    by (simp add: amd_opts_def cls_generator_def)
  have ex: "all_amd_cards (class_dir [] [''a2.png'', ''a1.jpg'', ''a3.png''] []) cls_generator =
     [''cls/AMD/a1.jpg'', ''cls/AMD/a2.png'', ''cls/AMD/a3.png'',
      ''cls/amd_back.jpg'', ''cls/amd_back.jpg'', ''cls/amd_back.jpg'']"
    by (simp add: all_amd_cards_eq three_amd_cards sanitize_plain numeral_eq_Suc)
  have "[0..<1] = [0::nat]"
    by (simp add: upt_rec)
  then have mix: "map (images_with ''[angle=90, width=4.4cm]'')
     (pages_of (amd_section (class_dir [] [''a2.png'', ''a1.jpg'', ''a3.png''] []) cls_generator)) =
     [[IncludeGraphics ''[angle=90, width=4.4cm]'' ''cls/AMD/a1.jpg'',
       IncludeGraphics ''[angle=90, width=4.4cm]'' ''cls/AMD/a2.png'',
       IncludeGraphics ''[angle=90, width=4.4cm]'' ''cls/AMD/a3.png'',
       IncludeGraphics ''[angle=90, width=4.4cm]'' ''cls/amd_back.jpg'',
       IncludeGraphics ''[angle=90, width=4.4cm]'' ''cls/amd_back.jpg'',
       IncludeGraphics ''[angle=90, width=4.4cm]'' ''cls/amd_back.jpg'']]"
    using amd_pages_cards [of cls_generator
        "all_amd_cards (class_dir [] [''a2.png'', ''a1.jpg'', ''a3.png''] []) cls_generator"
        "sanitize_path (asset_path (class_dir [] [''a2.png'', ''a1.jpg'', ''a3.png''] []) cls_generator
           ''character_token'')"]
    unfolding amd_section_def opts ex by (simp add: slice_def)
  show ?thesis
    using all_amd_cards_eq [of fs self] idx mix
    by (simp only: amd_paths_def non_amd_paths_def sorted_folder_images simp_thms)
qed

text \<open>Three AMD cards: the first front is at place 0 and its back plate at place 3.\<close>

theorem amd_sequence_fronts_then_backs_witness:
  "(0::nat) < length (amd_paths (class_dir [] [''a2.png'', ''a1.jpg'', ''a3.png''] []) cls_generator) +
       length (non_amd_paths (class_dir [] [''a2.png'', ''a1.jpg'', ''a3.png''] []) cls_generator) \<and>
   all_amd_cards (class_dir [] [''a2.png'', ''a1.jpg'', ''a3.png''] []) cls_generator ! 0 =
     ''cls/AMD/a1.jpg'' \<and>
   all_amd_cards (class_dir [] [''a2.png'', ''a1.jpg'', ''a3.png''] []) cls_generator ! 3 =
     ''cls/amd_back.jpg''"
proof -
  let ?fs = "class_dir [] [''a2.png'', ''a1.jpg'', ''a3.png''] []"
  have n: "length (amd_paths ?fs cls_generator) + length (non_amd_paths ?fs cls_generator) = 3"
    by (simp add: three_amd_cards)
  then have 0: "(0::nat) < length (amd_paths ?fs cls_generator) + length (non_amd_paths ?fs cls_generator)"
    by simp
  from amd_sequence_fronts_then_backs [of ?fs cls_generator]
  have "\<forall>i < length (amd_paths ?fs cls_generator) + length (non_amd_paths ?fs cls_generator).
      all_amd_cards ?fs cls_generator ! i =
        sanitize_path ((amd_paths ?fs cls_generator @ non_amd_paths ?fs cls_generator) ! i) \<and>
      all_amd_cards ?fs cls_generator !
        (length (amd_paths ?fs cls_generator) + length (non_amd_paths ?fs cls_generator) + i) =
        sanitize_path ((amd_backs ?fs cls_generator @ non_amd_backs ?fs cls_generator) ! i)"
    by blast
  with 0 have "all_amd_cards ?fs cls_generator ! 0 =
        sanitize_path ((amd_paths ?fs cls_generator @ non_amd_paths ?fs cls_generator) ! 0) \<and>
      all_amd_cards ?fs cls_generator !
        (length (amd_paths ?fs cls_generator) + length (non_amd_paths ?fs cls_generator) + 0) =
        sanitize_path ((amd_backs ?fs cls_generator @ non_amd_backs ?fs cls_generator) ! 0)"
    by blast
  then show ?thesis
    using 0 by (simp add: three_amd_cards amd_backs_def sanitize_plain numeral_3_eq_3)
qed

section \<open>Order of the card images\<close>

lemma evens_pairs: "evens (concat (map (\<lambda>i. [A i, B i]) js)) = map A js"
  by (induction js) simp_all

lemma amd_pages_concat:
  "concat (map (images_with (amd_opts self)) (pages_of (amd_cards self seq tok))) =
     map (IncludeGraphics (amd_opts self)) seq"
proof -
  let ?np = "(length seq + 9) div 10"
  have "length seq \<le> 10 * ?np"
    by arith
  then have cs: "concat (map (\<lambda>i. slice seq (10 * i) (10 * (i + 1))) [0..<?np]) = seq"
    by (rule concat_slices_all)
  have "concat (map (\<lambda>i. map (IncludeGraphics (amd_opts self)) (slice seq (10 * i) (10 * (i + 1)))) [0..<?np]) =
        map (IncludeGraphics (amd_opts self)) (concat (map (\<lambda>i. slice seq (10 * i) (10 * (i + 1))) [0..<?np]))"
    by (simp only: map_concat map_map comp_def)
  then show ?thesis
    by (simp only: amd_pages_cards cs)
qed

lemma ability_fronts_concat:
  "concat (evens (map images (pages_of (ability_cards self cps plate)))) =
     map (IncludeGraphics '''') cps"
proof -
  let ?k = "2 * cards_per_line self"
  let ?np = "length cps div ?k + 1"
  have "cards_per_line self = 3 \<or> cards_per_line self = 4"
    by (simp add: cards_per_line_def)
  then have "length cps \<le> ?k * ?np"
    by (elim disjE) simp_all
  then have cs: "concat (map (\<lambda>i. slice cps (?k * i) (?k * (i + 1))) [0..<?np]) = cps"
    by (rule concat_slices_all)
  have "concat (map (\<lambda>i. map (IncludeGraphics '''') (slice cps (?k * i) (?k * (i + 1)))) [0..<?np]) =
        map (IncludeGraphics '''') (concat (map (\<lambda>i. slice cps (?k * i) (?k * (i + 1))) [0..<?np]))"
    by (simp only: map_concat map_map comp_def)
  then show ?thesis
    by (simp only: ability_pages_images evens_pairs cs)
qed

lemma mset_folder_images:
  "mset (folder_images fs self folder) =
     mset (glob fs (joinpath (path_to_root_dir self) folder) ''.jpg'' @
           glob fs (joinpath (path_to_root_dir self) folder) ''.png'')"
  by (simp add: folder_images_def)

text \<open>
  Claim C8: in each card folder the image paths are put in lexicographic order, whatever
  order the directory listing has, and the fronts stand in the document in that order.
  Each of the three path lists is sorted and is a rearrangement of the folder's
  \<^verbatim>\<open>.jpg\<close> and \<^verbatim>\<open>.png\<close> entries; the front pages of the ability section, read in
  order, embed the sanitized ability-card paths in list order, and the card images of the
  AMD section begin with the AMD paths and then the NON\_AMD paths in list order.
\<close>

theorem fronts_embedded_in_sorted_order:
  "sorted (card_paths fs self) \<and>
   mset (card_paths fs self) =
     mset (glob fs (joinpath (path_to_root_dir self) ''AbilityCards'') ''.jpg'' @
           glob fs (joinpath (path_to_root_dir self) ''AbilityCards'') ''.png'') \<and>
   sorted (amd_paths fs self) \<and>
   mset (amd_paths fs self) =
     mset (glob fs (joinpath (path_to_root_dir self) ''AMD'') ''.jpg'' @
           glob fs (joinpath (path_to_root_dir self) ''AMD'') ''.png'') \<and>
   sorted (non_amd_paths fs self) \<and>
   mset (non_amd_paths fs self) =
     mset (glob fs (joinpath (path_to_root_dir self) ''NON_AMD'') ''.jpg'' @
           glob fs (joinpath (path_to_root_dir self) ''NON_AMD'') ''.png'') \<and>
   concat (evens (map images (pages_of (ability_section fs self)))) =
     map (\<lambda>p. IncludeGraphics '''' (sanitize_path p)) (card_paths fs self) \<and>
   take (length (amd_paths fs self) + length (non_amd_paths fs self))
     (concat (map (images_with (amd_opts self)) (pages_of (amd_section fs self)))) =
     map (\<lambda>p. IncludeGraphics (amd_opts self) (sanitize_path p))
       (amd_paths fs self @ non_amd_paths fs self)"
proof -
  have ability: "concat (evens (map images (pages_of (ability_section fs self)))) =
     map (\<lambda>p. IncludeGraphics '''' (sanitize_path p)) (card_paths fs self)"
    by (simp add: ability_section_def ability_fronts_concat comp_def)
  have "concat (map (images_with (amd_opts self)) (pages_of (amd_section fs self))) =
     map (IncludeGraphics (amd_opts self)) (all_amd_cards fs self)"
    unfolding amd_section_def by (rule amd_pages_concat)
  then have amd: "take (length (amd_paths fs self) + length (non_amd_paths fs self))
     (concat (map (images_with (amd_opts self)) (pages_of (amd_section fs self)))) =
     map (\<lambda>p. IncludeGraphics (amd_opts self) (sanitize_path p))
       (amd_paths fs self @ non_amd_paths fs self)"
    by (simp add: all_amd_cards_def Let_def comp_def)
  show ?thesis
    using ability amd
    by (simp only: card_paths_def amd_paths_def non_amd_paths_def sorted_folder_images
        mset_folder_images simp_thms)
qed

section \<open>Character mat, mini and sheet\<close>

lemma sanitize_path_append: "sanitize_path (a @ b) = sanitize_path a @ sanitize_path b"
  by (simp add: sanitize_path_def)

lemma amd_opts_neq_fixed:
  "''[width=14.5cm,height=9.5cm]'' \<noteq> amd_opts self"
  "''[width=4cm]'' \<noteq> amd_opts self"
  "''[height=14cm]'' \<noteq> amd_opts self"
  by (simp_all add: amd_opts_def)

lemma images_with_latex_code:
  "opts \<noteq> '''' \<Longrightarrow> opts \<noteq> amd_opts self \<Longrightarrow> opts \<noteq> token_opts \<Longrightarrow>
   images_with opts (latex_code fs self) =
     images_with opts (mat_section fs self) @ images_with opts (sheet_section fs self)"
  by (simp add: latex_code_def images_with_append header_no_images end_document_no_images
      ability_section_def amd_section_def ability_no_other_images amd_no_other_images)

lemma mat_section_images:
  "images_with ''[width=14.5cm,height=9.5cm]'' (mat_section fs self) =
     [IncludeGraphics ''[width=14.5cm,height=9.5cm]'' (sanitize_path (asset_path fs self ''character_mat'')),
      IncludeGraphics ''[width=14.5cm,height=9.5cm]''
        (sanitize_path (asset_path fs self ''character_mat_back''))]"
  "images_with ''[width=4cm]'' (mat_section fs self) =
     [IncludeGraphics ''[width=4cm]'' (sanitize_path (asset_path fs self ''character_mini'')),
      Mirrored ''[width=4cm]'' (sanitize_path (asset_path fs self ''character_mini''))]"
  "images_with ''[height=14cm]'' (mat_section fs self) = []"
  by (simp_all add: mat_section_def character_mat_def images_with_def)

lemma sheet_section_images:
  "images_with ''[width=14.5cm,height=9.5cm]'' (sheet_section fs self) = []"
  "images_with ''[width=4cm]'' (sheet_section fs self) = []"
  "images_with ''[height=14cm]'' (sheet_section fs self) =
     [IncludeGraphics ''[height=14cm]'' (sanitize_path (asset_path fs self ''character_sheet'')),
      IncludeGraphics ''[height=14cm]'' (sanitize_path (asset_path fs self ''character_sheet'')),
      IncludeGraphics ''[height=14cm]'' (sanitize_path (asset_path fs self ''character_sheet'')),
      IncludeGraphics ''[height=14cm]'' (sanitize_path (asset_path fs self ''character_sheet''))]"
  by (simp_all add: sheet_section_def character_sheet_def images_with_def Let_def)

lemma sheet_images_of_document:
  "images_with ''[height=14cm]'' (latex_code fs self) =
     [IncludeGraphics ''[height=14cm]'' (sanitize_path (asset_path fs self ''character_sheet'')),
      IncludeGraphics ''[height=14cm]'' (sanitize_path (asset_path fs self ''character_sheet'')),
      IncludeGraphics ''[height=14cm]'' (sanitize_path (asset_path fs self ''character_sheet'')),
      IncludeGraphics ''[height=14cm]'' (sanitize_path (asset_path fs self ''character_sheet''))]"
  using amd_opts_neq_fixed [of self]
  by (simp add: images_with_latex_code token_opts_def mat_section_images sheet_section_images)

lemma mat_front_neq_back:
  "sanitize_path (asset_path fs self ''character_mat'') \<noteq>
   sanitize_path (asset_path fs self ''character_mat_back'')"
  by (simp add: asset_path_def with_suffix_def joinpath_def Let_def sanitize_path_append)
     (simp add: sanitize_path_def bs_def)

text \<open>
  Claim C2 says that the document holds the character-sheet image exactly twice.
  \<^verbatim>\<open>character_sheet\<close> builds a block with two inclusions of the sheet and returns the
  block twice (the back of the sheet is the same as the front for now), so the document
  holds four.
\<close>

theorem sheet_image_embedded_four_times:
  "images_with ''[height=14cm]''
     (latex_code (class_dir [''c1.png''] [''a1.jpg''] []) cls_generator) =
     [IncludeGraphics ''[height=14cm]'' ''cls/character_sheet.png'',
      IncludeGraphics ''[height=14cm]'' ''cls/character_sheet.png'',
      IncludeGraphics ''[height=14cm]'' ''cls/character_sheet.png'',
      IncludeGraphics ''[height=14cm]'' ''cls/character_sheet.png''] \<and>
   length (images_with ''[height=14cm]''
     (latex_code (class_dir [''c1.png''] [''a1.jpg''] []) cls_generator)) \<noteq> 2"
proof -
  have "asset_path (class_dir [''c1.png''] [''a1.jpg''] []) cls_generator ''character_sheet'' =
        ''cls/character_sheet.png''"
    by code_simp
  moreover have "sanitize_path ''cls/character_sheet.png'' = ''cls/character_sheet.png''"
    by (simp add: sanitize_path_def bs_def)
  ultimately show ?thesis
    by (simp add: sheet_images_of_document)
qed

text \<open>
  Claim C2, amended: the document holds exactly one character-mat front image, one
  character-mat back image (a different file), one character-mini image in normal
  placement and one mirrored character-mini image; the character-sheet block is emitted
  exactly twice and holds the sheet image twice, four inclusions of the sheet in all.
  This holds for every input directory.
\<close>

theorem mat_and_mini_once_sheet_block_twice:
  "images_with ''[width=14.5cm,height=9.5cm]'' (latex_code fs self) =
     [IncludeGraphics ''[width=14.5cm,height=9.5cm]'' (sanitize_path (asset_path fs self ''character_mat'')),
      IncludeGraphics ''[width=14.5cm,height=9.5cm]''
        (sanitize_path (asset_path fs self ''character_mat_back''))] \<and>
   sanitize_path (asset_path fs self ''character_mat'') \<noteq>
     sanitize_path (asset_path fs self ''character_mat_back'') \<and>
   images_with ''[width=4cm]'' (latex_code fs self) =
     [IncludeGraphics ''[width=4cm]'' (sanitize_path (asset_path fs self ''character_mini'')),
      Mirrored ''[width=4cm]'' (sanitize_path (asset_path fs self ''character_mini''))] \<and>
   (\<exists>block. sheet_section fs self = block @ block \<and>
      images block =
        [IncludeGraphics ''[height=14cm]'' (sanitize_path (asset_path fs self ''character_sheet'')),
         IncludeGraphics ''[height=14cm]'' (sanitize_path (asset_path fs self ''character_sheet''))]) \<and>
   images_with ''[height=14cm]'' (latex_code fs self) =
     replicate 4 (IncludeGraphics ''[height=14cm]'' (sanitize_path (asset_path fs self ''character_sheet'')))"
proof -
  have mat: "images_with ''[width=14.5cm,height=9.5cm]'' (latex_code fs self) =
     [IncludeGraphics ''[width=14.5cm,height=9.5cm]'' (sanitize_path (asset_path fs self ''character_mat'')),
      IncludeGraphics ''[width=14.5cm,height=9.5cm]''
        (sanitize_path (asset_path fs self ''character_mat_back''))]"
    using amd_opts_neq_fixed [of self]
    by (simp add: images_with_latex_code token_opts_def mat_section_images sheet_section_images)
  have mini: "images_with ''[width=4cm]'' (latex_code fs self) =
     [IncludeGraphics ''[width=4cm]'' (sanitize_path (asset_path fs self ''character_mini'')),
      Mirrored ''[width=4cm]'' (sanitize_path (asset_path fs self ''character_mini''))]"
    using amd_opts_neq_fixed [of self]
    by (simp add: images_with_latex_code token_opts_def mat_section_images sheet_section_images)
  have block: "\<exists>block. sheet_section fs self = block @ block \<and>
      images block =
        [IncludeGraphics ''[height=14cm]'' (sanitize_path (asset_path fs self ''character_sheet'')),
         IncludeGraphics ''[height=14cm]'' (sanitize_path (asset_path fs self ''character_sheet''))]"
    unfolding sheet_section_def character_sheet_def Let_def
    by (rule exI, rule conjI, rule refl) (simp add: images_def)
  have sheet: "images_with ''[height=14cm]'' (latex_code fs self) =
     replicate 4 (IncludeGraphics ''[height=14cm]'' (sanitize_path (asset_path fs self ''character_sheet'')))"
    by (simp add: sheet_images_of_document numeral_eq_Suc)
  from mat mini block sheet mat_front_neq_back [of fs self] show ?thesis
    by blast
qed

section \<open>The written document\<close>

lemma render_append: "render (a @ b) = render a @ render b"
  by (simp add: render_def)

lemma init_Inr:
  "init fs root out a4 bleed = Inr self \<Longrightarrow>
   self = \<lparr>path_to_root_dir = Path root, output_path = Path out, is_a4 = a4, has_bleed = bleed,
            rotate_amd_cards = True\<rparr>"
  by (auto simp: init_def Let_def split: sum.splits)

lemma Path_examples:
  "Path ''cls'' = ''cls''" "Path ''cls/'' = ''cls''" "Path ''out.tex'' = ''out.tex''"
  by code_simp+

lemma class_dir_valid:
  "init (class_dir cards amds non_amds) ''cls'' ''out.tex'' True True = Inr cls_generator"
  by (simp add: init_def check_root_dir_consistency_def class_dir_def mk_fs_def joinpath_def
      with_suffix_def cls_generator_def Path_examples)

lemma class_dir_writable:
  "open_error (class_dir cards amds non_amds) p = None"
  "write_error (class_dir cards amds non_amds) p t = None"
  by (simp_all add: class_dir_def mk_fs_def)

lemma unwritable_output_writes_nothing:
  "init fs root out a4 bleed = Inr self \<Longrightarrow> open_error fs (output_path self) = Some e \<Longrightarrow>
   main fs root out a4 bleed = (Inl e, [])"
  by (simp add: main_def generate_latex_file_def)

text \<open>
  Claim C7: for every input that passes the validation and whose output file can be
  opened and written, the run writes one file, the output path, and its text is the
  header, the ability-card section, the AMD and NON\_AMD section, the character mat and
  mini section, the character-sheet section and the end of the document, in this order,
  whatever folders are empty. The header asks for landscape, for \<^verbatim>\<open>a4paper\<close> when
  the A4 flag is set and \<^verbatim>\<open>letterpaper\<close> otherwise, and gobbles the page numbers.
\<close>

theorem document_sections_in_fixed_order:
  assumes "init fs root out a4 bleed = Inr self"
    and "open_error fs (output_path self) = None"
    and "write_error fs (output_path self) (render (latex_code fs self)) = None"
  shows "main fs root out a4 bleed =
           (Inr (),
            [(Path out,
              render (header self) @ render (ability_section fs self) @
              render (amd_section fs self) @ render (mat_section fs self) @
              render (sheet_section fs self) @ render end_document)]) \<and>
         render (header self) =
           bs # ''documentclass[12pt,'' @ (if a4 then ''a4paper'' else ''letterpaper'') @
           '',notitlepage,landscape]{article}\<newline>'' @
           bs # ''usepackage{graphicx}\<newline>'' @
           bs # ''usepackage{subcaption}\<newline>'' @
           bs # ''usepackage{pdflscape}\<newline>'' @
           bs # ''usepackage[space]{grffile}\<newline>\<newline>'' @
           bs # ''pagenumbering{gobble}\<newline>\<newline>'' @
           bs # ''addtolength{'' @ bs # ''topmargin}{-3.4cm}\<newline>'' @
           bs # ''begin{document}\<newline>\<newline>'' \<and>
         render end_document = bs # ''end{document}''"
proof -
  have self: "output_path self = Path out" "is_a4 self = a4"
    using init_Inr [OF assms(1)] by simp_all
  have "main fs root out a4 bleed = (Inr (), [(output_path self, render (latex_code fs self))])"
    using assms by (simp add: main_def generate_latex_file_def)
  then have run: "main fs root out a4 bleed =
           (Inr (),
            [(Path out,
              render (header self) @ render (ability_section fs self) @
              render (amd_section fs self) @ render (mat_section fs self) @
              render (sheet_section fs self) @ render end_document)])"
    by (simp add: self latex_code_def render_append)
  have head: "render (header self) =
           bs # ''documentclass[12pt,'' @ (if a4 then ''a4paper'' else ''letterpaper'') @
           '',notitlepage,landscape]{article}\<newline>'' @
           bs # ''usepackage{graphicx}\<newline>'' @
           bs # ''usepackage{subcaption}\<newline>'' @
           bs # ''usepackage{pdflscape}\<newline>'' @
           bs # ''usepackage[space]{grffile}\<newline>\<newline>'' @
           bs # ''pagenumbering{gobble}\<newline>\<newline>'' @
           bs # ''addtolength{'' @ bs # ''topmargin}{-3.4cm}\<newline>'' @
           bs # ''begin{document}\<newline>\<newline>''"
    by (simp add: header_def render_def Let_def self)
  have "render end_document = bs # ''end{document}''"
    by (simp add: end_document_def render_def)
  with run head show ?thesis
    by blast
qed

text \<open>A complete class directory with one ability card and no other card.\<close>

theorem document_sections_in_fixed_order_witness:
  "init (class_dir [''c1.png''] [] []) ''cls'' ''out.tex'' True True = Inr cls_generator \<and>
   open_error (class_dir [''c1.png''] [] []) (output_path cls_generator) = None \<and>
   write_error (class_dir [''c1.png''] [] []) (output_path cls_generator)
     (render (latex_code (class_dir [''c1.png''] [] []) cls_generator)) = None \<and>
   main (class_dir [''c1.png''] [] []) ''cls'' ''out.tex'' True True =
     (Inr (),
      [(''out.tex'',
        render (header cls_generator) @
        render (ability_section (class_dir [''c1.png''] [] []) cls_generator) @
        render (amd_section (class_dir [''c1.png''] [] []) cls_generator) @
        render (mat_section (class_dir [''c1.png''] [] []) cls_generator) @
        render (sheet_section (class_dir [''c1.png''] [] []) cls_generator) @
        render end_document)])"
  using document_sections_in_fixed_order
      [OF class_dir_valid [of "[''c1.png'']" "[]" "[]"] class_dir_writable(1) class_dir_writable(2)]
    class_dir_valid [of "[''c1.png'']" "[]" "[]"]
    class_dir_writable [of "[''c1.png'']" "[]" "[]"]
  by (simp only: Path_examples simp_thms)

section \<open>Missing assets\<close>





end
